theory Spec2Isabelle
  imports Complex_Main
begin

section \<open>Numbers, errors and Python values\<close>

text \<open>
  Power values reach \<open>exp_range_from\<close> as Python numbers: \<open>int\<close> or \<open>float\<close> from the
  parsed JSON and TOML, \<open>Decimal\<close> for the defaults. A number is represented here by the
  value it denotes, a rational or one of the two infinities. Python compares \<open>int\<close>,
  \<open>float\<close> and \<open>Decimal\<close> by value, so one order serves \<open>sorted\<close>, \<open>min\<close> and \<open>max\<close>.
  The conversions \<open>Decimal(str(x))\<close> and \<open>float(d)\<close> keep the denoted value in this
  representation: binary rounding, the 28-digit precision of the decimal context and
  NaN are not represented.
\<close>

datatype pynum = NegInf | Fin rat | PosInf

instantiation pynum :: linorder
begin

fun less_eq_pynum :: "pynum \<Rightarrow> pynum \<Rightarrow> bool" where
  "less_eq_pynum NegInf _ = True"
| "less_eq_pynum (Fin a) NegInf = False"
| "less_eq_pynum (Fin a) (Fin b) = (a \<le> b)"
| "less_eq_pynum (Fin a) PosInf = True"
| "less_eq_pynum PosInf PosInf = True"
| "less_eq_pynum PosInf _ = False"

definition less_pynum :: "pynum \<Rightarrow> pynum \<Rightarrow> bool" where
  "less_pynum a b = (a \<le> b \<and> \<not> b \<le> a)"

instance
proof
  fix x y z :: pynum
  show "(x < y) = (x \<le> y \<and> \<not> y \<le> x)"
    by (simp add: less_pynum_def)
  show "x \<le> x"
    by (cases x) simp_all
  show "x \<le> y \<Longrightarrow> y \<le> z \<Longrightarrow> x \<le> z"
    by (cases x; cases y; cases z) simp_all
  show "x \<le> y \<Longrightarrow> y \<le> x \<Longrightarrow> x = y"
    by (cases x; cases y) simp_all
  show "x \<le> y \<or> y \<le> x"
    by (cases x; cases y) auto
qed

end

text \<open>
  The exceptions this module can raise: \<open>decimal.InvalidOperation\<close> from the decimal
  arithmetic (the default context traps it), \<open>TypeError\<close> from a call with an unexpected
  keyword argument or from \<open>list.extend(None)\<close>, \<open>IndexError\<close> from \<open>xs[0]\<close> on an
  empty list.
\<close>

datatype error = InvalidOperation | TypeError | IndexError

text \<open>
  \<open>Decimal.__add__\<close> and \<open>Decimal.__sub__\<close>: exact on finite operands; an infinity absorbs
  a finite operand; \<open>Infinity + -Infinity\<close> and \<open>Infinity - Infinity\<close> signal
  \<open>InvalidOperation\<close>.
\<close>

fun dec_add :: "pynum \<Rightarrow> pynum \<Rightarrow> error + pynum" where
  "dec_add (Fin a) (Fin b) = Inr (Fin (a + b))"
| "dec_add PosInf NegInf = Inl InvalidOperation"
| "dec_add NegInf PosInf = Inl InvalidOperation"
| "dec_add PosInf _ = Inr PosInf"
| "dec_add _ PosInf = Inr PosInf"
| "dec_add NegInf _ = Inr NegInf"
| "dec_add _ NegInf = Inr NegInf"

fun dec_sub :: "pynum \<Rightarrow> pynum \<Rightarrow> error + pynum" where
  "dec_sub (Fin a) (Fin b) = Inr (Fin (a - b))"
| "dec_sub PosInf PosInf = Inl InvalidOperation"
| "dec_sub NegInf NegInf = Inl InvalidOperation"
| "dec_sub PosInf _ = Inr PosInf"
| "dec_sub _ NegInf = Inr PosInf"
| "dec_sub NegInf _ = Inr NegInf"
| "dec_sub _ PosInf = Inr NegInf"

section \<open>Expected power ranges\<close>

record ExpectedPowerRange =
  upperBound :: pynum
  nominalValue :: pynum
  lowerBound :: pynum

text \<open>
  A margins or limits argument is \<open>None\<close> or a dict; \<open>d.get(k, default)\<close> reads it.
\<close>

type_synonym bounds_dict = "string \<rightharpoonup> pynum"

definition dict_get :: "bounds_dict \<Rightarrow> string \<Rightarrow> pynum \<Rightarrow> pynum" where
  "dict_get d k dflt = (case d k of None \<Rightarrow> dflt | Some v \<Rightarrow> v)"

definition margin_upper :: "bounds_dict option \<Rightarrow> pynum" where
  "margin_upper margins =
     (case margins of None \<Rightarrow> Fin 0 | Some d \<Rightarrow> dict_get d ''upper'' (Fin 0))"

definition margin_lower :: "bounds_dict option \<Rightarrow> pynum" where
  "margin_lower margins =
     (case margins of None \<Rightarrow> PosInf | Some d \<Rightarrow> dict_get d ''lower'' PosInf)"

definition limit_upper :: "bounds_dict option \<Rightarrow> pynum" where
  "limit_upper limits =
     (case limits of None \<Rightarrow> PosInf | Some d \<Rightarrow> dict_get d ''upper'' PosInf)"

definition limit_lower :: "bounds_dict option \<Rightarrow> pynum" where
  "limit_lower limits =
     (case limits of None \<Rightarrow> NegInf | Some d \<Rightarrow> dict_get d ''lower'' NegInf)"

text \<open>
  \<open>sorted([limit_lower, nominal_value, limit_upper])[1]\<close>: the middle element of the
  three after sorting.
\<close>

definition coerce_nominal :: "pynum \<Rightarrow> bounds_dict option \<Rightarrow> pynum" where
  "coerce_nominal nominal_value limits =
     sort [limit_lower limits, nominal_value, limit_upper limits] ! 1"

text \<open>
  \<open>exp_range_from\<close>: the upper bound is computed first, then the lower bound, so the
  first failing decimal operation is the one that is raised.
\<close>

definition exp_range_from ::
  "pynum \<Rightarrow> bounds_dict option \<Rightarrow> bounds_dict option \<Rightarrow> error + ExpectedPowerRange" where
  "exp_range_from nominal_value margins limits =
     (let nominal_value' = coerce_nominal nominal_value limits in
      case dec_add nominal_value' (margin_upper margins) of
        Inl e \<Rightarrow> Inl e
      | Inr upper_bound \<Rightarrow>
          (case dec_sub nominal_value' (margin_lower margins) of
             Inl e \<Rightarrow> Inl e
           | Inr lower_bound \<Rightarrow>
               Inr \<lparr>upperBound = min upper_bound (limit_upper limits),
                    nominalValue = nominal_value',
                    lowerBound = max lower_bound (limit_lower limits)\<rparr>))"

section \<open>Response and mask objects\<close>

text \<open>
  A keyword argument such as \<open>exclude_extensions\<close> can hold any Python value; the tests
  the module applies to it are truthiness (\<open>if v\<close>, \<open>not v\<close>) and identity with the
  Boolean \<open>False\<close> (\<open>v is False\<close>).
\<close>

datatype pyval = PyNone | PyBool bool | PyInt int | PyStr string

fun truthy :: "pyval \<Rightarrow> bool" where
  "truthy PyNone = False"
| "truthy (PyBool b) = b"
| "truthy (PyInt i) = (i \<noteq> 0)"
| "truthy (PyStr s) = (s \<noteq> [])"

definition is_False :: "pyval \<Rightarrow> bool" where
  "is_False v = (v = PyBool False)"

text \<open>
  Modelled from the spec: the enumeration \<open>ResponseCode\<close> of \<open>interface_common\<close> is
  defined outside this module. The spec describes it as an enumerated outcome
  classification with one success code, one generic-failure code and further specific
  failure codes; a specific code carries a number that tells the specific codes apart.
\<close>

datatype ResponseCode = SUCCESS | GENERAL_FAILURE | SPECIFIC int

text \<open>
  Modelled from the spec: the classes of \<open>available_spectrum_inquiry_response\<close> and
  \<open>expected_inquiry_response\<close> are defined outside this module. The records below
  have the fields this module reads or passes to the constructors, in the constructors'
  argument order; per the spec a response carries a sequence of frequency-info records,
  a sequence of channel-info records and optional vendor extensions. The content of a
  frequency range and of a vendor extension is never inspected here.
\<close>

type_synonym FrequencyRange = "int \<times> int"

datatype VendorExtension = VendorExtension string string

record AvailableFrequencyInfo =
  frequencyRange :: FrequencyRange
  maxPsd :: pynum

record AvailableChannelInfo =
  globalOperatingClass :: int
  channelCfi :: "int list"
  maxEirp :: "pynum list"

record Response =
  responseCode :: ResponseCode

record AvailableSpectrumInquiryResponse =
  requestId :: string
  rulesetId :: string
  response :: Response
  availableFrequencyInfo :: "AvailableFrequencyInfo list"
  availableChannelInfo :: "AvailableChannelInfo list"
  vendorExtensions :: "VendorExtension list option"

record AvailableSpectrumInquiryResponseMessage =
  version :: string
  availableSpectrumInquiryResponses :: "AvailableSpectrumInquiryResponse list"
  vendorExtensions :: "VendorExtension list option"

record ExpectedAvailableFrequencyInfo =
  frequencyRange :: FrequencyRange
  maxPsd :: ExpectedPowerRange

record ExpectedAvailableChannelInfo =
  globalOperatingClass :: int
  channelCfi :: "int list"
  maxEirp :: "ExpectedPowerRange list"

record ExpectedSpectrumInquiryResponse =
  requestId :: string
  rulesetId :: string
  expectedResponseCodes :: "ResponseCode list"
  availableFrequencyInfo :: "ExpectedAvailableFrequencyInfo list"
  availableChannelInfo :: "ExpectedAvailableChannelInfo list"
  vendorExtensions :: "VendorExtension list option"
  disallowedResponseCodes :: "ResponseCode list option"

record ExpectedSpectrumInquiryResponseMessage =
  version :: string
  expectedSpectrumInquiryResponses :: "ExpectedSpectrumInquiryResponse list"
  vendorExtensions :: "VendorExtension list option"

section \<open>Conversion functions\<close>

text \<open>
  A list comprehension over a conversion that may raise: the elements are converted from
  left to right and the first exception ends the comprehension.
\<close>

fun map_result :: "('a \<Rightarrow> error + 'b) \<Rightarrow> 'a list \<Rightarrow> error + 'b list" where
  "map_result f [] = Inr []"
| "map_result f (x # xs) =
     (case f x of
        Inl e \<Rightarrow> Inl e
      | Inr y \<Rightarrow> (case map_result f xs of Inl e \<Rightarrow> Inl e | Inr ys \<Rightarrow> Inr (y # ys)))"

definition exp_freq_info_from ::
  "AvailableFrequencyInfo \<Rightarrow> bounds_dict option \<Rightarrow> bounds_dict option
     \<Rightarrow> error + ExpectedAvailableFrequencyInfo" where
  "exp_freq_info_from avail_info margins limits =
     (case exp_range_from (AvailableFrequencyInfo.maxPsd avail_info) margins limits of
        Inl e \<Rightarrow> Inl e
      | Inr r \<Rightarrow>
          Inr \<lparr>frequencyRange = AvailableFrequencyInfo.frequencyRange avail_info,
               maxPsd = r\<rparr>)"

definition exp_chan_info_from ::
  "AvailableChannelInfo \<Rightarrow> bounds_dict option \<Rightarrow> bounds_dict option
     \<Rightarrow> error + ExpectedAvailableChannelInfo" where
  "exp_chan_info_from avail_info margins limits =
     (case map_result (\<lambda>x. exp_range_from x margins limits)
             (AvailableChannelInfo.maxEirp avail_info) of
        Inl e \<Rightarrow> Inl e
      | Inr rs \<Rightarrow>
          Inr \<lparr>globalOperatingClass = AvailableChannelInfo.globalOperatingClass avail_info,
               channelCfi = AvailableChannelInfo.channelCfi avail_info,
               maxEirp = rs\<rparr>)"

text \<open>
  The keyword arguments of \<open>exp_resp_from\<close> and \<open>exp_msg_from\<close>, as the driver passes
  them from the configuration file with \<open>**mask2resp_cfg\<close>: a field is \<open>None\<close> when the
  keyword is not given, and the callee's default applies. The margins and limits
  default to \<open>None\<close>, so an absent dict and \<open>None\<close> coincide. Only the recognised
  options are represented: any further key would travel through \<open>**kwargs\<close> down to
  \<open>exp_range_from\<close>, which does not accept it.
\<close>

record conversion_options =
  expect_less_specific_error :: "pyval option"
  permit_any_code :: "pyval option"
  psd_margins :: "bounds_dict option"
  eirp_margins :: "bounds_dict option"
  eirp_limits :: "bounds_dict option"
  psd_limits :: "bounds_dict option"
  exclude_extensions :: "pyval option"

definition arg_or :: "pyval \<Rightarrow> pyval option \<Rightarrow> pyval" where
  "arg_or dflt arg = (case arg of None \<Rightarrow> dflt | Some v \<Rightarrow> v)"

definition allowed_codes :: "pyval \<Rightarrow> ResponseCode \<Rightarrow> ResponseCode list" where
  "allowed_codes expect_less_specific code =
     (if truthy expect_less_specific \<and> code \<notin> set [SUCCESS, GENERAL_FAILURE]
      then [code] @ [GENERAL_FAILURE] else [code])"

definition disallowed_codes :: "pyval \<Rightarrow> ResponseCode list option" where
  "disallowed_codes permit_any = (if truthy permit_any then Some [] else None)"

definition exp_resp_from ::
  "AvailableSpectrumInquiryResponse \<Rightarrow> conversion_options
     \<Rightarrow> error + ExpectedSpectrumInquiryResponse" where
  "exp_resp_from resp kw =
     (case map_result (\<lambda>x. exp_freq_info_from x (psd_margins kw) (psd_limits kw))
             (AvailableSpectrumInquiryResponse.availableFrequencyInfo resp) of
        Inl e \<Rightarrow> Inl e
      | Inr freq_infos \<Rightarrow>
          (case map_result (\<lambda>x. exp_chan_info_from x (eirp_margins kw) (eirp_limits kw))
                  (AvailableSpectrumInquiryResponse.availableChannelInfo resp) of
             Inl e \<Rightarrow> Inl e
           | Inr chan_infos \<Rightarrow>
               Inr \<lparr>requestId = AvailableSpectrumInquiryResponse.requestId resp,
                    rulesetId = AvailableSpectrumInquiryResponse.rulesetId resp,
                    expectedResponseCodes =
                      allowed_codes (arg_or (PyBool True) (expect_less_specific_error kw))
                        (responseCode (response resp)),
                    availableFrequencyInfo = freq_infos,
                    availableChannelInfo = chan_infos,
                    vendorExtensions =
                      (if is_False (arg_or (PyBool True) (exclude_extensions kw))
                       then AvailableSpectrumInquiryResponse.vendorExtensions resp
                       else None),
                    disallowedResponseCodes =
                      disallowed_codes (arg_or (PyBool False) (permit_any_code kw))\<rparr>))"

definition exp_msg_from ::
  "AvailableSpectrumInquiryResponseMessage \<Rightarrow> conversion_options
     \<Rightarrow> error + ExpectedSpectrumInquiryResponseMessage" where
  "exp_msg_from msg kw =
     (let exclude = arg_or (PyBool True) (exclude_extensions kw) in
      case map_result (\<lambda>x. exp_resp_from x (kw\<lparr>exclude_extensions := Some exclude\<rparr>))
             (availableSpectrumInquiryResponses msg) of
        Inl e \<Rightarrow> Inl e
      | Inr resps \<Rightarrow>
          Inr \<lparr>version = AvailableSpectrumInquiryResponseMessage.version msg,
               expectedSpectrumInquiryResponses = resps,
               vendorExtensions =
                 (if is_False exclude
                  then AvailableSpectrumInquiryResponseMessage.vendorExtensions msg
                  else None)\<rparr>)"

section \<open>The driver: one source path\<close>

text \<open>
  The body of the loop of \<open>main\<close> over the source paths, from the parsed response objects
  on. Its inputs are the configuration, the mask validator (an opaque predicate), the
  source path, whether the path is a directory, and the response messages of the files
  that were read and parsed, in the order of the directory scan. A file whose conversion
  raises or whose mask is not valid is skipped. The response validator only prints a
  warning and has no part in the result.
\<close>

definition clear_disallowed ::
  "ExpectedSpectrumInquiryResponseMessage \<Rightarrow> ExpectedSpectrumInquiryResponseMessage" where
  "clear_disallowed mask_obj =
     mask_obj\<lparr>expectedSpectrumInquiryResponses :=
       map (\<lambda>sub_mask. sub_mask\<lparr>disallowedResponseCodes := None\<rparr>)
         (expectedSpectrumInquiryResponses mask_obj)\<rparr>"

definition convert_file ::
  "conversion_options \<Rightarrow> (ExpectedSpectrumInquiryResponseMessage \<Rightarrow> bool)
     \<Rightarrow> AvailableSpectrumInquiryResponseMessage
     \<Rightarrow> ExpectedSpectrumInquiryResponseMessage option" where
  "convert_file cfg mask_valid resp_obj =
     (case exp_msg_from resp_obj cfg of
        Inl ex \<Rightarrow> None
      | Inr mask_obj \<Rightarrow>
          if \<not> mask_valid mask_obj then None
          else if \<not> truthy (arg_or (PyBool False) (permit_any_code cfg))
          then Some (clear_disallowed mask_obj)
          else Some mask_obj)"

fun convert_files ::
  "conversion_options \<Rightarrow> (ExpectedSpectrumInquiryResponseMessage \<Rightarrow> bool)
     \<Rightarrow> AvailableSpectrumInquiryResponseMessage list
     \<Rightarrow> ExpectedSpectrumInquiryResponseMessage list" where
  "convert_files cfg mask_valid [] = []"
| "convert_files cfg mask_valid (resp_obj # rest) =
     (case convert_file cfg mask_valid resp_obj of
        None \<Rightarrow> convert_files cfg mask_valid rest
      | Some mask_obj \<Rightarrow> mask_obj # convert_files cfg mask_valid rest)"

text \<open>
  One pass of the merge loop. On a version mismatch the source prints a message and
  executes \<open>continue\<close>, which resumes the loop over the masks with the accumulator as it
  is. Otherwise the response list is extended; \<open>list.extend(None)\<close> raises \<open>TypeError\<close>.
\<close>

definition merge_step ::
  "ExpectedSpectrumInquiryResponseMessage \<Rightarrow> ExpectedSpectrumInquiryResponseMessage
     \<Rightarrow> error + ExpectedSpectrumInquiryResponseMessage" where
  "merge_step mask_obj next_mask =
     (if version mask_obj \<noteq> version next_mask then Inr mask_obj
      else
        let merged = mask_obj\<lparr>expectedSpectrumInquiryResponses :=
              expectedSpectrumInquiryResponses mask_obj @
              expectedSpectrumInquiryResponses next_mask\<rparr>
        in case vendorExtensions mask_obj of
             Some exts \<Rightarrow>
               (case vendorExtensions next_mask of
                  None \<Rightarrow> Inl TypeError
                | Some new_exts \<Rightarrow>
                    Inr (merged\<lparr>vendorExtensions := Some (exts @ new_exts)\<rparr>))
           | None \<Rightarrow> Inr (merged\<lparr>vendorExtensions := vendorExtensions next_mask\<rparr>))"

fun merge_loop ::
  "ExpectedSpectrumInquiryResponseMessage \<Rightarrow> ExpectedSpectrumInquiryResponseMessage list
     \<Rightarrow> error + ExpectedSpectrumInquiryResponseMessage" where
  "merge_loop mask_obj [] = Inr mask_obj"
| "merge_loop mask_obj (next_mask # rest) =
     (case merge_step mask_obj next_mask of
        Inl e \<Rightarrow> Inl e
      | Inr mask_obj' \<Rightarrow> merge_loop mask_obj' rest)"

text \<open>
  \<open>match len(mask_set)\<close>: \<open>Inr None\<close> is the case of no valid response, where the source
  path is skipped and nothing is written.
\<close>

fun prepare_mask_set ::
  "ExpectedSpectrumInquiryResponseMessage list
     \<Rightarrow> error + ExpectedSpectrumInquiryResponseMessage option" where
  "prepare_mask_set [] = Inr None"
| "prepare_mask_set [mask_obj] = Inr (Some mask_obj)"
| "prepare_mask_set (mask_obj # rest) =
     (case merge_loop mask_obj rest of Inl e \<Rightarrow> Inl e | Inr merged \<Rightarrow> Inr (Some merged))"

subsection \<open>The mask file name\<close>

text \<open>
  Strings are lists of characters. \<open>[A-Z]\<close> is the ASCII range; \<open>\d\<close> is taken on ASCII
  text, where it is the ten digits.
\<close>

definition is_upper :: "char \<Rightarrow> bool" where
  "is_upper c = (c \<in> set ''ABCDEFGHIJKLMNOPQRSTUVWXYZ'')"

definition is_digit :: "char \<Rightarrow> bool" where
  "is_digit c = (c \<in> set ''0123456789'')"

text \<open>
  \<open>re.fullmatch(r'REQ-([A-Z]{3})(\d+)', s)\<close>: the literal prefix, exactly three
  letters, then one or more digits up to the end; the result holds the two groups.
\<close>

definition wfa_fullmatch :: "string \<Rightarrow> (string \<times> string) option" where
  "wfa_fullmatch s =
     (if take 4 s \<noteq> ''REQ-'' then None
      else
        let letters = take 3 (drop 4 s); digits = drop 7 s
        in if length letters = 3 \<and> list_all is_upper letters \<and>
              digits \<noteq> [] \<and> list_all is_digit digits
           then Some (letters, digits) else None)"

text \<open>\<open>sep.join(xs)\<close> and \<open>s.replace("_", ".")\<close>.\<close>

fun join :: "string \<Rightarrow> string list \<Rightarrow> string" where
  "join sep [] = []"
| "join sep [x] = x"
| "join sep (x # xs) = x @ sep @ join sep xs"

definition replace_underscores :: "string \<Rightarrow> string" where
  "replace_underscores s = map (\<lambda>c. if c = CHR ''_'' then CHR ''.'' else c) s"

text \<open>
  \<open>os.path.basename\<close> on POSIX: the part of the path after its last slash.
  \<open>pathlib.Path(p).stem\<close> on POSIX: the path is split at slashes, empty and \<open>.\<close>
  components are dropped, the name is the last component left (empty when there is
  none), and the stem is the name up to its last dot when that dot is neither the first
  nor the last character of the name.
\<close>

definition basename :: "string \<Rightarrow> string" where
  "basename p = rev (takeWhile (\<lambda>c. c \<noteq> CHR ''/'') (rev p))"

fun split_slash :: "string \<Rightarrow> string list" where
  "split_slash [] = [[]]"
| "split_slash (c # cs) =
     (if c = CHR ''/'' then [] # split_slash cs
      else (case split_slash cs of [] \<Rightarrow> [[c]] | w # ws \<Rightarrow> (c # w) # ws))"

definition path_name :: "string \<Rightarrow> string" where
  "path_name p =
     (case rev (filter (\<lambda>part. part \<noteq> [] \<and> part \<noteq> ''.'') (split_slash p)) of
        [] \<Rightarrow> []
      | name # _ \<Rightarrow> name)"

definition stem :: "string \<Rightarrow> string" where
  "stem p =
     (let name = path_name p;
          after = takeWhile (\<lambda>c. c \<noteq> CHR ''.'') (rev name)
      in if length after = length name then name
         else let i = length name - length after - 1
              in if 0 < i \<and> i < length name - 1 then take i name else name)"

definition src_gen_name :: "string \<Rightarrow> bool \<Rightarrow> string" where
  "src_gen_name src_path is_dir =
     (if is_dir then basename src_path @ ''_mask.json''
      else stem src_path @ ''_mask.json'')"

text \<open>
  The file name of the mask; \<open>expectedSpectrumInquiryResponses[0]\<close> raises \<open>IndexError\<close>
  on a mask without responses.
\<close>

definition mask_file_name ::
  "string \<Rightarrow> bool \<Rightarrow> ExpectedSpectrumInquiryResponseMessage \<Rightarrow> error + string" where
  "mask_file_name src_path is_dir mask_obj =
     (case expectedSpectrumInquiryResponses mask_obj of
        [] \<Rightarrow> Inl IndexError
      | first # _ \<Rightarrow>
          (case wfa_fullmatch (requestId first) of
             Some (letters, digits) \<Rightarrow>
               if length (expectedSpectrumInquiryResponses mask_obj) > 1
               then Inr (''AFCS.'' @ replace_underscores (basename src_path) @ ''_mask.json'')
               else Inr (join ''.'' ([''AFCS''] @ [letters, digits]) @ ''_mask.json'')
           | None \<Rightarrow> Inr (src_gen_name src_path is_dir)))"

text \<open>
  One source path: \<open>Inr None\<close> when the path is skipped, \<open>Inr (Some (name, mask))\<close> when
  the mask is handed on to be written under that file name, \<open>Inl e\<close> when an exception
  leaves the loop.
\<close>

definition process_src ::
  "conversion_options \<Rightarrow> (ExpectedSpectrumInquiryResponseMessage \<Rightarrow> bool) \<Rightarrow> string \<Rightarrow> bool
     \<Rightarrow> AvailableSpectrumInquiryResponseMessage list
     \<Rightarrow> error + (string \<times> ExpectedSpectrumInquiryResponseMessage) option" where
  "process_src cfg mask_valid src_path is_dir resp_objs =
     (case prepare_mask_set (convert_files cfg mask_valid resp_objs) of
        Inl e \<Rightarrow> Inl e
      | Inr None \<Rightarrow> Inr None
      | Inr (Some mask_obj) \<Rightarrow>
          (case mask_file_name src_path is_dir mask_obj of
             Inl e \<Rightarrow> Inl e
           | Inr name \<Rightarrow> Inr (Some (name, mask_obj))))"

section \<open>The expected range lies within the limits\<close>







text \<open>The definitions that evaluate a call of \<open>exp_range_from\<close>.\<close>

lemmas range_defs = exp_range_from_def coerce_nominal_def margin_upper_def margin_lower_def
  limit_upper_def limit_lower_def dict_get_def Let_def


section \<open>Default margins and limits\<close>



section \<open>Converting channel records, responses and messages\<close>

text \<open>
  A comprehension that returns has converted every element, in order; it returns when
  every element converts.
\<close>

lemma map_result_Inr:
  assumes "map_result f xs = Inr ys"
  shows "length ys = length xs \<and> (\<forall>i<length xs. f (xs ! i) = Inr (ys ! i))"
  using assms
proof (induction xs arbitrary: ys)
  case Nil
  then show ?case by simp
next
  case (Cons x xs)
  from Cons.prems obtain y ys' where y: "f x = Inr y" and ys': "map_result f xs = Inr ys'"
    and ys: "ys = y # ys'"
    by (auto split: sum.splits)
  from Cons.IH [OF ys'] have len: "length ys' = length xs"
    and nth: "\<forall>i<length xs. f (xs ! i) = Inr (ys' ! i)" by simp_all
  show ?case
  proof (intro conjI allI impI)
    show "length ys = length (x # xs)" by (simp add: ys len)
  next
    fix i assume "i < length (x # xs)"
    then show "f ((x # xs) ! i) = Inr (ys ! i)"
      using y nth by (cases i) (simp_all add: ys)
  qed
qed

lemma map_result_returns:
  assumes "\<forall>x\<in>set xs. \<not> isl (f x)"
  shows "\<not> isl (map_result f xs)"
  using assms
proof (induction xs)
  case Nil
  then show ?case by simp
next
  case (Cons x xs)
  then show ?case by (auto split: sum.splits)
qed

text \<open>The fields of a converted response and of a converted message.\<close>

lemma exp_resp_from_Inr:
  assumes "exp_resp_from resp kw = Inr r"
  shows "expectedResponseCodes r =
           allowed_codes (arg_or (PyBool True) (expect_less_specific_error kw))
             (responseCode (response resp))"
    and "disallowedResponseCodes r = disallowed_codes (arg_or (PyBool False) (permit_any_code kw))"
    and "ExpectedSpectrumInquiryResponse.vendorExtensions r =
           (if is_False (arg_or (PyBool True) (exclude_extensions kw))
            then AvailableSpectrumInquiryResponse.vendorExtensions resp else None)"
    and "ExpectedSpectrumInquiryResponse.requestId r = AvailableSpectrumInquiryResponse.requestId resp"
  using assms unfolding exp_resp_from_def by (auto split: sum.splits)

lemma exp_msg_from_Inr:
  assumes "exp_msg_from msg kw = Inr m"
  shows "ExpectedSpectrumInquiryResponseMessage.vendorExtensions m =
           (if is_False (arg_or (PyBool True) (exclude_extensions kw))
            then AvailableSpectrumInquiryResponseMessage.vendorExtensions msg else None)"
    and "ExpectedSpectrumInquiryResponseMessage.version m =
           AvailableSpectrumInquiryResponseMessage.version msg"
    and "map_result (\<lambda>x. exp_resp_from x
             (kw\<lparr>exclude_extensions := Some (arg_or (PyBool True) (exclude_extensions kw))\<rparr>))
           (availableSpectrumInquiryResponses msg) = Inr (expectedSpectrumInquiryResponses m)"
  using assms unfolding exp_msg_from_def Let_def by (auto split: sum.splits)

text \<open>
  A response converts when each of its power values does; in particular a response
  without frequency and channel records, such as an error response, always converts.
\<close>

lemma exp_resp_from_returns:
  assumes "\<forall>f\<in>set (AvailableSpectrumInquiryResponse.availableFrequencyInfo resp).
             \<not> isl (exp_range_from (AvailableFrequencyInfo.maxPsd f) (psd_margins kw) (psd_limits kw))"
      and "\<forall>c\<in>set (AvailableSpectrumInquiryResponse.availableChannelInfo resp).
             \<forall>x\<in>set (AvailableChannelInfo.maxEirp c).
               \<not> isl (exp_range_from x (eirp_margins kw) (eirp_limits kw))"
  shows "\<not> isl (exp_resp_from resp kw)"
proof -
  have "\<forall>f\<in>set (AvailableSpectrumInquiryResponse.availableFrequencyInfo resp).
      \<not> isl (exp_freq_info_from f (psd_margins kw) (psd_limits kw))"
    using assms(1) unfolding exp_freq_info_from_def by (auto split: sum.splits)
  then have f: "\<not> isl (map_result (\<lambda>x. exp_freq_info_from x (psd_margins kw) (psd_limits kw))
      (AvailableSpectrumInquiryResponse.availableFrequencyInfo resp))"
    by (rule map_result_returns)
  have "\<forall>c\<in>set (AvailableSpectrumInquiryResponse.availableChannelInfo resp).
      \<not> isl (exp_chan_info_from c (eirp_margins kw) (eirp_limits kw))"
  proof
    fix c assume "c \<in> set (AvailableSpectrumInquiryResponse.availableChannelInfo resp)"
    with assms(2) have "\<forall>x\<in>set (AvailableChannelInfo.maxEirp c).
        \<not> isl (exp_range_from x (eirp_margins kw) (eirp_limits kw))" by blast
    then have "\<not> isl (map_result (\<lambda>x. exp_range_from x (eirp_margins kw) (eirp_limits kw))
        (AvailableChannelInfo.maxEirp c))"
      by (rule map_result_returns)
    then show "\<not> isl (exp_chan_info_from c (eirp_margins kw) (eirp_limits kw))"
      unfolding exp_chan_info_from_def by (auto split: sum.splits)
  qed
  then have c: "\<not> isl (map_result (\<lambda>x. exp_chan_info_from x (eirp_margins kw) (eirp_limits kw))
      (AvailableSpectrumInquiryResponse.availableChannelInfo resp))"
    by (rule map_result_returns)
  from f c show ?thesis
    unfolding exp_resp_from_def by (auto split: sum.splits)
qed

text \<open>The definitions that evaluate a conversion.\<close>

lemmas conv_defs = exp_resp_from_def exp_msg_from_def exp_chan_info_from_def
  exp_freq_info_from_def allowed_codes_def disallowed_codes_def arg_or_def is_False_def

text \<open>
  C6. \<open>exp_chan_info_from\<close> copies the operating class and the channel identifiers, and
  the list of expected ranges it returns has the length of the \<open>maxEirp\<close> sequence, its
  \<open>i\<close>-th range being \<open>exp_range_from\<close> of the \<open>i\<close>-th value with the same margins and
  limits. It returns whenever each value expands to a range.
\<close>

theorem exp_chan_info_from_ranges:
  "(\<forall>e. exp_chan_info_from avail_info margins limits = Inr e \<longrightarrow>
      globalOperatingClass e = AvailableChannelInfo.globalOperatingClass avail_info \<and>
      channelCfi e = AvailableChannelInfo.channelCfi avail_info \<and>
      length (maxEirp e) = length (AvailableChannelInfo.maxEirp avail_info) \<and>
      (\<forall>i<length (AvailableChannelInfo.maxEirp avail_info).
         exp_range_from (AvailableChannelInfo.maxEirp avail_info ! i) margins limits =
           Inr (maxEirp e ! i))) \<and>
   ((\<forall>x\<in>set (AvailableChannelInfo.maxEirp avail_info).
       \<not> isl (exp_range_from x margins limits)) \<longrightarrow>
      \<not> isl (exp_chan_info_from avail_info margins limits))"
proof (intro conjI allI impI)
  fix e
  assume ret: "exp_chan_info_from avail_info margins limits = Inr e"
  then obtain rs where rs: "map_result (\<lambda>x. exp_range_from x margins limits)
      (AvailableChannelInfo.maxEirp avail_info) = Inr rs"
    and e: "e = \<lparr>globalOperatingClass = AvailableChannelInfo.globalOperatingClass avail_info,
                 channelCfi = AvailableChannelInfo.channelCfi avail_info, maxEirp = rs\<rparr>"
    unfolding exp_chan_info_from_def by (auto split: sum.splits)
  note m = map_result_Inr [OF rs]
  show "globalOperatingClass e = AvailableChannelInfo.globalOperatingClass avail_info"
    by (simp add: e)
  show "channelCfi e = AvailableChannelInfo.channelCfi avail_info"
    by (simp add: e)
  show "length (maxEirp e) = length (AvailableChannelInfo.maxEirp avail_info)"
    using m by (simp add: e)
  fix i assume "i < length (AvailableChannelInfo.maxEirp avail_info)"
  then show "exp_range_from (AvailableChannelInfo.maxEirp avail_info ! i) margins limits =
           Inr (maxEirp e ! i)"
    using m by (simp add: e)
next
  assume "\<forall>x\<in>set (AvailableChannelInfo.maxEirp avail_info).
       \<not> isl (exp_range_from x margins limits)"
  then have "\<not> isl (map_result (\<lambda>x. exp_range_from x margins limits)
      (AvailableChannelInfo.maxEirp avail_info))"
    by (rule map_result_returns)
  then show "\<not> isl (exp_chan_info_from avail_info margins limits)"
    unfolding exp_chan_info_from_def by (auto split: sum.splits)
qed

text \<open>
  The channel record with \<open>maxEirp = [10, 12, 14]\<close>, margins 1 above and 2 below: three
  ranges in the same order, around 10, 12 and 14.
\<close>

theorem exp_chan_info_from_ranges_witness:
  "exp_chan_info_from
     \<lparr>AvailableChannelInfo.globalOperatingClass = 131,
      AvailableChannelInfo.channelCfi = [1, 5, 9],
      AvailableChannelInfo.maxEirp = [Fin 10, Fin 12, Fin 14]\<rparr>
     (Some [''upper'' \<mapsto> Fin 1, ''lower'' \<mapsto> Fin 2]) None =
   Inr \<lparr>globalOperatingClass = 131, channelCfi = [1, 5, 9],
        maxEirp = [\<lparr>upperBound = Fin 11, nominalValue = Fin 10, lowerBound = Fin 8\<rparr>,
                   \<lparr>upperBound = Fin 13, nominalValue = Fin 12, lowerBound = Fin 10\<rparr>,
                   \<lparr>upperBound = Fin 15, nominalValue = Fin 14, lowerBound = Fin 12\<rparr>]\<rparr> \<and>
   exp_range_from (Fin 10) (Some [''upper'' \<mapsto> Fin 1, ''lower'' \<mapsto> Fin 2]) None =
     Inr \<lparr>upperBound = Fin 11, nominalValue = Fin 10, lowerBound = Fin 8\<rparr> \<and>
   exp_range_from (Fin 12) (Some [''upper'' \<mapsto> Fin 1, ''lower'' \<mapsto> Fin 2]) None =
     Inr \<lparr>upperBound = Fin 13, nominalValue = Fin 12, lowerBound = Fin 10\<rparr> \<and>
   exp_range_from (Fin 14) (Some [''upper'' \<mapsto> Fin 1, ''lower'' \<mapsto> Fin 2]) None =
     Inr \<lparr>upperBound = Fin 15, nominalValue = Fin 14, lowerBound = Fin 12\<rparr>"
proof -
  let ?info = "\<lparr>AvailableChannelInfo.globalOperatingClass = 131,
      AvailableChannelInfo.channelCfi = [1, 5, 9],
      AvailableChannelInfo.maxEirp = [Fin 10, Fin 12, Fin 14]\<rparr>"
  let ?M = "Some [''upper'' \<mapsto> Fin 1, ''lower'' \<mapsto> Fin 2]"
  let ?e = "\<lparr>globalOperatingClass = 131, channelCfi = [1, 5, 9],
        maxEirp = [\<lparr>upperBound = Fin 11, nominalValue = Fin 10, lowerBound = Fin 8\<rparr>,
                   \<lparr>upperBound = Fin 13, nominalValue = Fin 12, lowerBound = Fin 10\<rparr>,
                   \<lparr>upperBound = Fin 15, nominalValue = Fin 14, lowerBound = Fin 12\<rparr>]\<rparr>"
  note inst = exp_chan_info_from_ranges [of ?info ?M None]
  have each: "\<forall>x\<in>set (AvailableChannelInfo.maxEirp ?info). \<not> isl (exp_range_from x ?M None)"
    by (simp add: range_defs)
  with inst have "\<not> isl (exp_chan_info_from ?info ?M None)" by blast
  have ret: "exp_chan_info_from ?info ?M None = Inr ?e"
    by (simp add: conv_defs range_defs)
  with inst have nth: "\<forall>i<length (AvailableChannelInfo.maxEirp ?info).
      exp_range_from (AvailableChannelInfo.maxEirp ?info ! i) ?M None = Inr (maxEirp ?e ! i)"
    by blast
  have "exp_range_from (Fin 10) ?M None =
      Inr \<lparr>upperBound = Fin 11, nominalValue = Fin 10, lowerBound = Fin 8\<rparr>"
    using nth [rule_format, of 0] by simp
  moreover have "exp_range_from (Fin 12) ?M None =
      Inr \<lparr>upperBound = Fin 13, nominalValue = Fin 12, lowerBound = Fin 10\<rparr>"
    using nth [rule_format, of 1] by simp
  moreover have "exp_range_from (Fin 14) ?M None =
      Inr \<lparr>upperBound = Fin 15, nominalValue = Fin 14, lowerBound = Fin 12\<rparr>"
    using nth [rule_format, of 2] by simp
  ultimately show ?thesis using ret by blast
qed

text \<open>
  C4. The expected response codes of a converted response are the response's own code
  alone when \<open>expect_less_specific_error\<close> is false or the code is \<open>SUCCESS\<close> or
  \<open>GENERAL_FAILURE\<close>, and the response's code followed by \<open>GENERAL_FAILURE\<close> when
  \<open>expect_less_specific_error\<close> is true (its default) and the code is neither.
\<close>

theorem exp_resp_from_expected_codes:
  assumes "exp_resp_from resp kw = Inr r"
  shows "expectedResponseCodes r =
           (if truthy (arg_or (PyBool True) (expect_less_specific_error kw)) \<and>
               responseCode (response resp) \<noteq> SUCCESS \<and>
               responseCode (response resp) \<noteq> GENERAL_FAILURE
            then [responseCode (response resp), GENERAL_FAILURE]
            else [responseCode (response resp)])"
  using exp_resp_from_Inr(1) [OF assms] by (simp add: allowed_codes_def)

text \<open>
  An error response with the specific code 103, converted with the default options: the
  expected codes are 103 and the general failure.
\<close>

theorem exp_resp_from_expected_codes_witness:
  "exp_resp_from
     \<lparr>AvailableSpectrumInquiryResponse.requestId = ''REQ-1'',
      AvailableSpectrumInquiryResponse.rulesetId = ''US_47_CFR_PART_15_SUBPART_E'',
      response = \<lparr>responseCode = SPECIFIC 103\<rparr>,
      AvailableSpectrumInquiryResponse.availableFrequencyInfo = [],
      AvailableSpectrumInquiryResponse.availableChannelInfo = [],
      AvailableSpectrumInquiryResponse.vendorExtensions = None\<rparr>
     \<lparr>expect_less_specific_error = None, permit_any_code = None, psd_margins = None,
      eirp_margins = None, eirp_limits = None, psd_limits = None,
      exclude_extensions = None\<rparr> =
   Inr \<lparr>requestId = ''REQ-1'', rulesetId = ''US_47_CFR_PART_15_SUBPART_E'',
        expectedResponseCodes = [SPECIFIC 103, GENERAL_FAILURE],
        availableFrequencyInfo = [], availableChannelInfo = [], vendorExtensions = None,
        disallowedResponseCodes = None\<rparr> \<and>
   expectedResponseCodes
     \<lparr>requestId = ''REQ-1'', rulesetId = ''US_47_CFR_PART_15_SUBPART_E'',
      expectedResponseCodes = [SPECIFIC 103, GENERAL_FAILURE],
      availableFrequencyInfo = [], availableChannelInfo = [], vendorExtensions = None,
      disallowedResponseCodes = None\<rparr> = [SPECIFIC 103, GENERAL_FAILURE]"
proof -
  let ?resp = "\<lparr>AvailableSpectrumInquiryResponse.requestId = ''REQ-1'',
      AvailableSpectrumInquiryResponse.rulesetId = ''US_47_CFR_PART_15_SUBPART_E'',
      response = \<lparr>responseCode = SPECIFIC 103\<rparr>,
      AvailableSpectrumInquiryResponse.availableFrequencyInfo = [],
      AvailableSpectrumInquiryResponse.availableChannelInfo = [],
      AvailableSpectrumInquiryResponse.vendorExtensions = None\<rparr>"
  let ?kw = "\<lparr>expect_less_specific_error = None, permit_any_code = None, psd_margins = None,
      eirp_margins = None, eirp_limits = None, psd_limits = None,
      exclude_extensions = None\<rparr>"
  let ?r = "\<lparr>requestId = ''REQ-1'', rulesetId = ''US_47_CFR_PART_15_SUBPART_E'',
        expectedResponseCodes = [SPECIFIC 103, GENERAL_FAILURE],
        availableFrequencyInfo = [], availableChannelInfo = [], vendorExtensions = None,
        disallowedResponseCodes = None\<rparr>"
  have ret: "exp_resp_from ?resp ?kw = Inr ?r"
    by (simp add: conv_defs)
  from exp_resp_from_expected_codes [OF ret]
  have "expectedResponseCodes ?r = [SPECIFIC 103, GENERAL_FAILURE]"
    by (simp add: arg_or_def)
  with ret show ?thesis by blast
qed

text \<open>
  C10. The vendor extensions of a converted response and of a converted message are
  those of the source exactly when \<open>exclude_extensions\<close> is the Boolean \<open>False\<close> itself;
  for every other value, also a falsy one such as \<open>0\<close>, \<open>None\<close> or the empty string,
  they are unset. Every response of a converted message follows the same rule.
\<close>

theorem exclude_extensions_identity:
  "(\<forall>r. exp_resp_from resp kw = Inr r \<longrightarrow>
      ExpectedSpectrumInquiryResponse.vendorExtensions r =
        (if arg_or (PyBool True) (exclude_extensions kw) = PyBool False
         then AvailableSpectrumInquiryResponse.vendorExtensions resp else None)) \<and>
   (\<forall>m. exp_msg_from msg kw = Inr m \<longrightarrow>
      ExpectedSpectrumInquiryResponseMessage.vendorExtensions m =
        (if arg_or (PyBool True) (exclude_extensions kw) = PyBool False
         then AvailableSpectrumInquiryResponseMessage.vendorExtensions msg else None) \<and>
      length (expectedSpectrumInquiryResponses m) =
        length (availableSpectrumInquiryResponses msg) \<and>
      (\<forall>i<length (availableSpectrumInquiryResponses msg).
         ExpectedSpectrumInquiryResponse.vendorExtensions
             (expectedSpectrumInquiryResponses m ! i) =
           (if arg_or (PyBool True) (exclude_extensions kw) = PyBool False
            then AvailableSpectrumInquiryResponse.vendorExtensions
                   (availableSpectrumInquiryResponses msg ! i)
            else None)))"
proof (intro conjI allI impI)
  fix r assume "exp_resp_from resp kw = Inr r"
  from exp_resp_from_Inr(3) [OF this]
  show "ExpectedSpectrumInquiryResponse.vendorExtensions r =
        (if arg_or (PyBool True) (exclude_extensions kw) = PyBool False
         then AvailableSpectrumInquiryResponse.vendorExtensions resp else None)"
    by (simp add: is_False_def)
next
  fix m assume ret: "exp_msg_from msg kw = Inr m"
  note parts = exp_msg_from_Inr [OF ret]
  note m = map_result_Inr [OF parts(3)]
  show "ExpectedSpectrumInquiryResponseMessage.vendorExtensions m =
        (if arg_or (PyBool True) (exclude_extensions kw) = PyBool False
         then AvailableSpectrumInquiryResponseMessage.vendorExtensions msg else None)"
    using parts(1) by (simp add: is_False_def)
  show "length (expectedSpectrumInquiryResponses m) =
        length (availableSpectrumInquiryResponses msg)"
    using m by simp
  fix i assume i: "i < length (availableSpectrumInquiryResponses msg)"
  with m have "exp_resp_from (availableSpectrumInquiryResponses msg ! i)
      (kw\<lparr>exclude_extensions := Some (arg_or (PyBool True) (exclude_extensions kw))\<rparr>) =
      Inr (expectedSpectrumInquiryResponses m ! i)"
    by simp
  from exp_resp_from_Inr(3) [OF this]
  show "ExpectedSpectrumInquiryResponse.vendorExtensions
             (expectedSpectrumInquiryResponses m ! i) =
           (if arg_or (PyBool True) (exclude_extensions kw) = PyBool False
            then AvailableSpectrumInquiryResponse.vendorExtensions
                   (availableSpectrumInquiryResponses msg ! i)
            else None)"
    by (simp add: is_False_def arg_or_def)
qed

text \<open>
  With \<open>exclude_extensions = 0\<close> a response that carries an extension is converted
  without it; with \<open>exclude_extensions = False\<close> a message and its response keep theirs.
\<close>

theorem exclude_extensions_identity_witness:
  "exp_resp_from
     \<lparr>AvailableSpectrumInquiryResponse.requestId = ''REQ-1'',
      AvailableSpectrumInquiryResponse.rulesetId = ''US_47_CFR_PART_15_SUBPART_E'',
      response = \<lparr>responseCode = SUCCESS\<rparr>,
      AvailableSpectrumInquiryResponse.availableFrequencyInfo = [],
      AvailableSpectrumInquiryResponse.availableChannelInfo = [],
      AvailableSpectrumInquiryResponse.vendorExtensions =
        Some [VendorExtension ''vendor.x'' ''params'']\<rparr>
     \<lparr>expect_less_specific_error = None, permit_any_code = None, psd_margins = None,
      eirp_margins = None, eirp_limits = None, psd_limits = None,
      exclude_extensions = Some (PyInt 0)\<rparr> =
   Inr \<lparr>requestId = ''REQ-1'', rulesetId = ''US_47_CFR_PART_15_SUBPART_E'',
        expectedResponseCodes = [SUCCESS],
        availableFrequencyInfo = [], availableChannelInfo = [], vendorExtensions = None,
        disallowedResponseCodes = None\<rparr> \<and>
   ExpectedSpectrumInquiryResponse.vendorExtensions
     \<lparr>requestId = ''REQ-1'', rulesetId = ''US_47_CFR_PART_15_SUBPART_E'',
      expectedResponseCodes = [SUCCESS],
      availableFrequencyInfo = [], availableChannelInfo = [], vendorExtensions = None,
      disallowedResponseCodes = None\<rparr> = None \<and>
   exp_msg_from
     \<lparr>AvailableSpectrumInquiryResponseMessage.version = ''1.4'',
      availableSpectrumInquiryResponses =
        [\<lparr>AvailableSpectrumInquiryResponse.requestId = ''REQ-1'',
          AvailableSpectrumInquiryResponse.rulesetId = ''US_47_CFR_PART_15_SUBPART_E'',
          response = \<lparr>responseCode = SUCCESS\<rparr>,
          AvailableSpectrumInquiryResponse.availableFrequencyInfo = [],
          AvailableSpectrumInquiryResponse.availableChannelInfo = [],
          AvailableSpectrumInquiryResponse.vendorExtensions =
            Some [VendorExtension ''vendor.x'' ''params'']\<rparr>],
      AvailableSpectrumInquiryResponseMessage.vendorExtensions =
        Some [VendorExtension ''vendor.y'' ''params'']\<rparr>
     \<lparr>expect_less_specific_error = None, permit_any_code = None, psd_margins = None,
      eirp_margins = None, eirp_limits = None, psd_limits = None,
      exclude_extensions = Some (PyBool False)\<rparr> =
   Inr \<lparr>version = ''1.4'',
        expectedSpectrumInquiryResponses =
          [\<lparr>requestId = ''REQ-1'', rulesetId = ''US_47_CFR_PART_15_SUBPART_E'',
            expectedResponseCodes = [SUCCESS],
            availableFrequencyInfo = [], availableChannelInfo = [],
            vendorExtensions = Some [VendorExtension ''vendor.x'' ''params''],
            disallowedResponseCodes = None\<rparr>],
        vendorExtensions = Some [VendorExtension ''vendor.y'' ''params'']\<rparr> \<and>
   ExpectedSpectrumInquiryResponseMessage.vendorExtensions
     \<lparr>version = ''1.4'',
      expectedSpectrumInquiryResponses =
        [\<lparr>requestId = ''REQ-1'', rulesetId = ''US_47_CFR_PART_15_SUBPART_E'',
          expectedResponseCodes = [SUCCESS],
          availableFrequencyInfo = [], availableChannelInfo = [],
          vendorExtensions = Some [VendorExtension ''vendor.x'' ''params''],
          disallowedResponseCodes = None\<rparr>],
      vendorExtensions = Some [VendorExtension ''vendor.y'' ''params'']\<rparr> =
     Some [VendorExtension ''vendor.y'' ''params'']"
proof -
  let ?resp = "\<lparr>AvailableSpectrumInquiryResponse.requestId = ''REQ-1'',
      AvailableSpectrumInquiryResponse.rulesetId = ''US_47_CFR_PART_15_SUBPART_E'',
      response = \<lparr>responseCode = SUCCESS\<rparr>,
      AvailableSpectrumInquiryResponse.availableFrequencyInfo = [],
      AvailableSpectrumInquiryResponse.availableChannelInfo = [],
      AvailableSpectrumInquiryResponse.vendorExtensions =
        Some [VendorExtension ''vendor.x'' ''params'']\<rparr>"
  let ?msg = "\<lparr>AvailableSpectrumInquiryResponseMessage.version = ''1.4'',
      availableSpectrumInquiryResponses = [?resp],
      AvailableSpectrumInquiryResponseMessage.vendorExtensions =
        Some [VendorExtension ''vendor.y'' ''params'']\<rparr>"
  let ?kw = "\<lambda>v. \<lparr>expect_less_specific_error = None, permit_any_code = None,
      psd_margins = None, eirp_margins = None, eirp_limits = None, psd_limits = None,
      exclude_extensions = Some v\<rparr>"
  let ?r = "\<lambda>exts. \<lparr>requestId = ''REQ-1'', rulesetId = ''US_47_CFR_PART_15_SUBPART_E'',
        expectedResponseCodes = [SUCCESS],
        availableFrequencyInfo = [], availableChannelInfo = [], vendorExtensions = exts,
        disallowedResponseCodes = None\<rparr>"
  let ?m = "\<lparr>version = ''1.4'',
        expectedSpectrumInquiryResponses = [?r (Some [VendorExtension ''vendor.x'' ''params''])],
        vendorExtensions = Some [VendorExtension ''vendor.y'' ''params'']\<rparr>"
  have a: "exp_resp_from ?resp (?kw (PyInt 0)) = Inr (?r None)"
    by (simp add: conv_defs)
  from exclude_extensions_identity [of ?resp "?kw (PyInt 0)", THEN conjunct1, rule_format, OF a]
  have dropped: "ExpectedSpectrumInquiryResponse.vendorExtensions (?r None) =
      (if arg_or (PyBool True) (exclude_extensions (?kw (PyInt 0))) = PyBool False
       then AvailableSpectrumInquiryResponse.vendorExtensions ?resp else None)" .
  have b: "exp_msg_from ?msg (?kw (PyBool False)) = Inr ?m"
    by (simp add: conv_defs)
  from exclude_extensions_identity [of _ "?kw (PyBool False)" ?msg, THEN conjunct2,
    rule_format, OF b]
  have kept: "ExpectedSpectrumInquiryResponseMessage.vendorExtensions ?m =
      (if arg_or (PyBool True) (exclude_extensions (?kw (PyBool False))) = PyBool False
       then AvailableSpectrumInquiryResponseMessage.vendorExtensions ?msg else None)"
    by blast
  have off: "arg_or (PyBool True) (exclude_extensions (?kw (PyInt 0))) \<noteq> PyBool False"
    and on: "arg_or (PyBool True) (exclude_extensions (?kw (PyBool False))) = PyBool False"
    by (simp_all add: arg_or_def)
  from dropped off have d: "ExpectedSpectrumInquiryResponse.vendorExtensions (?r None) = None"
    by (simp only: if_False simp_thms)
  from kept on have k: "ExpectedSpectrumInquiryResponseMessage.vendorExtensions ?m =
      AvailableSpectrumInquiryResponseMessage.vendorExtensions ?msg"
    by (simp only: if_True simp_thms)
  from a d b k show ?thesis by simp
qed

section \<open>The driver\<close>

text \<open>The definitions that evaluate the driver on a source path.\<close>

lemmas driver_defs = process_src_def convert_file_def clear_disallowed_def merge_step_def
  mask_file_name_def src_gen_name_def wfa_fullmatch_def is_upper_def is_digit_def
  replace_underscores_def basename_def stem_def path_name_def Let_def









subsection \<open>Merging the masks of a response set\<close>

text \<open>
  When every further mask has the version of the first and the loop does not raise, the
  merged response list is the concatenation of the response lists in input order.
\<close>

lemma merge_step_same_version:
  assumes "version next_mask = version acc" and "merge_step acc next_mask = Inr acc'"
  shows "version acc' = version acc \<and>
         expectedSpectrumInquiryResponses acc' =
           expectedSpectrumInquiryResponses acc @ expectedSpectrumInquiryResponses next_mask"
  using assms unfolding merge_step_def Let_def
  by (auto split: if_splits option.splits)

lemma merge_loop_same_version:
  assumes "\<forall>m\<in>set ms. version m = version acc" and "merge_loop acc ms = Inr acc'"
  shows "expectedSpectrumInquiryResponses acc' =
           expectedSpectrumInquiryResponses acc @ concat (map expectedSpectrumInquiryResponses ms)"
  using assms
proof (induction ms arbitrary: acc)
  case Nil
  then show ?case by simp
next
  case (Cons m ms)
  from Cons.prems(2) obtain mid where mid: "merge_step acc m = Inr mid"
    and rest: "merge_loop mid ms = Inr acc'"
    by (auto split: sum.splits)
  from Cons.prems(1) have same: "version m = version acc" by simp
  note step = merge_step_same_version [OF same mid]
  from Cons.prems(1) step have "\<forall>m\<in>set ms. version m = version mid" by simp
  from Cons.IH [OF this rest] step show ?case by simp
qed

text \<open>
  C2 asks that a version mismatch rejects the whole response set. The source prints the
  message for the source path and continues the merge loop: of three masks with the
  versions 1.4, 1.3 and 1.4 the second is left out, the first and the third are merged,
  and the mask is handed on to be written.
\<close>

theorem merge_version_mismatch_still_writes:
  "process_src
     \<lparr>expect_less_specific_error = None, permit_any_code = None, psd_margins = None,
      eirp_margins = None, eirp_limits = None, psd_limits = None,
      exclude_extensions = None\<rparr>
     (\<lambda>mask_obj. True) ''vectors/mixed_set'' True
     [\<lparr>AvailableSpectrumInquiryResponseMessage.version = ''1.4'',
       availableSpectrumInquiryResponses =
         [\<lparr>AvailableSpectrumInquiryResponse.requestId = ''REQ-ABC1'',
           AvailableSpectrumInquiryResponse.rulesetId = ''US'',
           response = \<lparr>responseCode = SUCCESS\<rparr>,
           AvailableSpectrumInquiryResponse.availableFrequencyInfo = [],
           AvailableSpectrumInquiryResponse.availableChannelInfo = [],
           AvailableSpectrumInquiryResponse.vendorExtensions = None\<rparr>],
       AvailableSpectrumInquiryResponseMessage.vendorExtensions = None\<rparr>,
      \<lparr>AvailableSpectrumInquiryResponseMessage.version = ''1.3'',
       availableSpectrumInquiryResponses =
         [\<lparr>AvailableSpectrumInquiryResponse.requestId = ''REQ-ABC2'',
           AvailableSpectrumInquiryResponse.rulesetId = ''US'',
           response = \<lparr>responseCode = SUCCESS\<rparr>,
           AvailableSpectrumInquiryResponse.availableFrequencyInfo = [],
           AvailableSpectrumInquiryResponse.availableChannelInfo = [],
           AvailableSpectrumInquiryResponse.vendorExtensions = None\<rparr>],
       AvailableSpectrumInquiryResponseMessage.vendorExtensions = None\<rparr>,
      \<lparr>AvailableSpectrumInquiryResponseMessage.version = ''1.4'',
       availableSpectrumInquiryResponses =
         [\<lparr>AvailableSpectrumInquiryResponse.requestId = ''REQ-ABC3'',
           AvailableSpectrumInquiryResponse.rulesetId = ''US'',
           response = \<lparr>responseCode = SUCCESS\<rparr>,
           AvailableSpectrumInquiryResponse.availableFrequencyInfo = [],
           AvailableSpectrumInquiryResponse.availableChannelInfo = [],
           AvailableSpectrumInquiryResponse.vendorExtensions = None\<rparr>],
       AvailableSpectrumInquiryResponseMessage.vendorExtensions = None\<rparr>] =
   Inr (Some (''AFCS.mixed.set_mask.json'',
     \<lparr>version = ''1.4'',
      expectedSpectrumInquiryResponses =
        [\<lparr>requestId = ''REQ-ABC1'', rulesetId = ''US'', expectedResponseCodes = [SUCCESS],
          availableFrequencyInfo = [], availableChannelInfo = [], vendorExtensions = None,
          disallowedResponseCodes = None\<rparr>,
         \<lparr>requestId = ''REQ-ABC3'', rulesetId = ''US'', expectedResponseCodes = [SUCCESS],
          availableFrequencyInfo = [], availableChannelInfo = [], vendorExtensions = None,
          disallowedResponseCodes = None\<rparr>],
      vendorExtensions = None\<rparr>))"
  by (simp add: conv_defs driver_defs)

text \<open>
  C3 asks that an unset extension list is merged as an empty one. When the accumulator
  has extensions and the next mask of the same version has none, the source calls
  \<open>extend(None)\<close>: the merge step raises \<open>TypeError\<close>, and so does the driver on two such
  response files converted with \<open>exclude_extensions = False\<close>.
\<close>

theorem merge_unset_extensions_raises:
  "merge_step
     \<lparr>version = ''1.4'',
      expectedSpectrumInquiryResponses =
        [\<lparr>requestId = ''REQ-ABC1'', rulesetId = ''US'', expectedResponseCodes = [SUCCESS],
          availableFrequencyInfo = [], availableChannelInfo = [], vendorExtensions = None,
          disallowedResponseCodes = None\<rparr>],
      vendorExtensions = Some [VendorExtension ''vendor.x'' ''params'']\<rparr>
     \<lparr>version = ''1.4'',
      expectedSpectrumInquiryResponses =
        [\<lparr>requestId = ''REQ-ABC2'', rulesetId = ''US'', expectedResponseCodes = [SUCCESS],
          availableFrequencyInfo = [], availableChannelInfo = [], vendorExtensions = None,
          disallowedResponseCodes = None\<rparr>],
      vendorExtensions = None\<rparr> = Inl TypeError \<and>
   process_src
     \<lparr>expect_less_specific_error = None, permit_any_code = None, psd_margins = None,
      eirp_margins = None, eirp_limits = None, psd_limits = None,
      exclude_extensions = Some (PyBool False)\<rparr>
     (\<lambda>mask_obj. True) ''vectors/ext_set'' True
     [\<lparr>AvailableSpectrumInquiryResponseMessage.version = ''1.4'',
       availableSpectrumInquiryResponses =
         [\<lparr>AvailableSpectrumInquiryResponse.requestId = ''REQ-ABC1'',
           AvailableSpectrumInquiryResponse.rulesetId = ''US'',
           response = \<lparr>responseCode = SUCCESS\<rparr>,
           AvailableSpectrumInquiryResponse.availableFrequencyInfo = [],
           AvailableSpectrumInquiryResponse.availableChannelInfo = [],
           AvailableSpectrumInquiryResponse.vendorExtensions = None\<rparr>],
       AvailableSpectrumInquiryResponseMessage.vendorExtensions =
         Some [VendorExtension ''vendor.x'' ''params'']\<rparr>,
      \<lparr>AvailableSpectrumInquiryResponseMessage.version = ''1.4'',
       availableSpectrumInquiryResponses =
         [\<lparr>AvailableSpectrumInquiryResponse.requestId = ''REQ-ABC2'',
           AvailableSpectrumInquiryResponse.rulesetId = ''US'',
           response = \<lparr>responseCode = SUCCESS\<rparr>,
           AvailableSpectrumInquiryResponse.availableFrequencyInfo = [],
           AvailableSpectrumInquiryResponse.availableChannelInfo = [],
           AvailableSpectrumInquiryResponse.vendorExtensions = None\<rparr>],
       AvailableSpectrumInquiryResponseMessage.vendorExtensions = None\<rparr>] =
   Inl TypeError"
  by (simp add: conv_defs driver_defs)

subsection \<open>The mask file name\<close>





end
